theory Spec2Isabelle
  imports Main "HOL-Library.AList"
begin

section \<open>The file cache of coala (coalib/misc/Caching.py)\<close>

text \<open>
  The module keeps two pickled dictionaries in the user's data directory: the run-time
  store (project directory to a dictionary from file path to the time of the last run,
  \<open>-1\<close> for a file that has never been run) and the changed-files store (project
  directory to the set of files changed since the last run). Every operation loads a
  whole store, changes it and writes it back.

  What the module takes from outside is a parameter of the model:
  \<^item> the directory returned by \<open>get_pickle_dir\<close> and the two file names
    \<open>caching_db\<close> and \<open>changed_files_db\<close> of \<open>coalib.misc.Constants\<close>;
  \<^item> \<open>pickle.dump\<close> and \<open>pickle.load\<close>: a function from values to blobs, and a
    function from blobs to what unpickling them does (a value, or an exception);
  \<^item> the clock read by \<open>update_last_coala_run_time\<close>.
  The file system is a partial map from paths to blobs (regular files only, the cache
  directory exists and is writable), \<open>os.remove\<close> succeeds on a path exactly when the
  file is there, and the log printer is the list of the warnings it was given.
\<close>

subsection \<open>Exceptions, blobs and dictionaries\<close>

datatype py_exception =
  UnpicklingError | EOFError | AttributeError | ImportError | IndexError | UnboundLocalError

text \<open>The outcome of \<open>pickle.load\<close> on the content of a file.\<close>

datatype 'v unpickled = Loaded 'v | Raises py_exception

text \<open>
  A Python dictionary is an association list in insertion order; \<open>d[k] = v\<close> is
  \<open>AList.update k v d\<close> (an existing key keeps its place, a new one goes to the end),
  \<open>k in d\<close> and \<open>d.get(k)\<close> read \<open>map_of d k\<close>. Two dictionaries are equal in Python
  when they are equal as maps.
\<close>

type_synonym ('k, 'v) dict = "('k \<times> 'v) list"

type_synonym run_times = "(string, (string, int) dict) dict"

type_synonym changed_files = "(string, string set) dict"

record 'b state =
  files :: "string \<rightharpoonup> 'b"
  warnings :: "string list"

record 'b env =
  pickle_dir :: string
  caching_db :: string
  changed_files_db :: string
  dump_run_times :: "run_times \<Rightarrow> 'b"
  load_run_times :: "'b \<Rightarrow> run_times unpickled"
  dump_changed :: "changed_files \<Rightarrow> 'b"
  load_changed :: "'b \<Rightarrow> changed_files unpickled"

subsection \<open>Paths (posixpath)\<close>

definition isabs :: "string \<Rightarrow> bool" where
  "isabs p = (case p of [] \<Rightarrow> False | c # _ \<Rightarrow> c = CHR ''/'')"

text \<open>\<open>os.path.join(a, b)\<close>: an absolute \<open>b\<close> replaces \<open>a\<close>.\<close>

definition os_path_join :: "string \<Rightarrow> string \<Rightarrow> string" where
  "os_path_join a b =
     (if isabs b then b
      else if a = [] \<or> last a = CHR ''/'' then a @ b
      else a @ ''/'' @ b)"

text \<open>
  \<open>os.path.dirname(p)\<close>: everything up to the last slash, without its trailing slashes
  unless it consists of slashes only.
\<close>

definition os_path_dirname :: "string \<Rightarrow> string" where
  "os_path_dirname p =
     (let head = rev (dropWhile (\<lambda>c. c \<noteq> CHR ''/'') (rev p))
      in if head \<noteq> [] \<and> \<not> list_all (\<lambda>c. c = CHR ''/'') head
         then rev (dropWhile (\<lambda>c. c = CHR ''/'') (rev head))
         else head)"

definition get_cache_data_path :: "string \<Rightarrow> string \<Rightarrow> string" where
  "get_cache_data_path dir filename = os_path_join dir filename"

subsection \<open>The log printer and the file system\<close>

definition warn :: "string \<Rightarrow> 'b state \<Rightarrow> 'b state" where
  "warn msg s = s\<lparr>warnings := warnings s @ [msg]\<rparr>"

text \<open>\<open>os.remove\<close>; \<open>None\<close> is \<open>OSError\<close>.\<close>

definition os_remove :: "string \<Rightarrow> 'b state \<Rightarrow> 'b state option" where
  "os_remove p s =
     (case files s p of
        None \<Rightarrow> None
      | Some _ \<Rightarrow> Some (s\<lparr>files := (files s)(p := None)\<rparr>))"

fun str_join :: "string \<Rightarrow> string list \<Rightarrow> string" where
  "str_join sep [] = []"
| "str_join sep [x] = x"
| "str_join sep (x # y # ys) = x @ sep @ str_join sep (y # ys)"

subsection \<open>delete_cache_files\<close>

definition corrupted_msg :: string where
  "corrupted_msg =
     ''The caching database is corrupted and will be removed. Each project will be re-cached automatically the next time coala is run.''"

definition problem_msg :: "string list \<Rightarrow> string \<Rightarrow> string" where
  "problem_msg error_files cache_dir =
     ''There was a problem deleting the following files: '' @ str_join '', '' error_files
       @ ''. Please delete them manually from '' @ cache_dir"

text \<open>
  The loop over \<open>files\<close>. Its state is the file system, \<open>error_files\<close> and the local
  variable \<open>cache_dir\<close>, which is unbound (\<open>None\<close>) until the first iteration.
\<close>

fun delete_loop ::
  "string \<Rightarrow> string list \<Rightarrow> 'b state \<times> string list \<times> string option
     \<Rightarrow> 'b state \<times> string list \<times> string option" where
  "delete_loop dir [] acc = acc"
| "delete_loop dir (file_name # rest) (s, error_files, cache_dir) =
     (let file_path = get_cache_data_path dir file_name;
          cache_dir' = Some (os_path_dirname file_path)
      in case os_remove file_path s of
           Some s' \<Rightarrow> delete_loop dir rest (s', error_files, cache_dir')
         | None \<Rightarrow> delete_loop dir rest (s, error_files @ [file_name], cache_dir'))"

definition delete_cache_files ::
  "string \<Rightarrow> 'b state \<Rightarrow> string list \<Rightarrow> (py_exception + bool) \<times> 'b state" where
  "delete_cache_files dir s files_arg =
     (case delete_loop dir files_arg (warn corrupted_msg s, [], None) of
        (s', error_files, cache_dir) \<Rightarrow>
          if length error_files > 0 then
            (case cache_dir of
               None \<Rightarrow> (Inl UnboundLocalError, s')
             | Some d \<Rightarrow> (Inr False, warn (problem_msg error_files d) s'))
          else (Inr True, s'))"


subsection \<open>pickle_load and pickle_dump\<close>

text \<open>
  \<open>pickle_load\<close> rebinds \<open>filename\<close> to the full path and, when unpickling raises
  \<open>UnpicklingError\<close> or \<open>EOFError\<close>, hands that full path to \<open>delete_cache_files\<close>, which
  joins it to the directory once more. Any other exception of \<open>pickle.load\<close> is not
  caught.
\<close>

definition pickle_load ::
  "string \<Rightarrow> ('b \<Rightarrow> 'v unpickled) \<Rightarrow> 'b state \<Rightarrow> string \<Rightarrow> 'v
     \<Rightarrow> (py_exception + 'v) \<times> 'b state" where
  "pickle_load dir loads s filename fallback =
     (let filename' = get_cache_data_path dir filename
      in case files s filename' of
           None \<Rightarrow> (Inr fallback, s)
         | Some f \<Rightarrow>
             (case loads f of
                Loaded v \<Rightarrow> (Inr v, s)
              | Raises e \<Rightarrow>
                  if e = UnpicklingError \<or> e = EOFError then
                    (case delete_cache_files dir s [filename'] of
                       (Inl e', s') \<Rightarrow> (Inl e', s')
                     | (Inr _, s') \<Rightarrow> (Inr fallback, s'))
                  else (Inl e, s)))"

text \<open>
  \<open>pickle_dump\<close> opens the path for writing and writes the pickle. The model is the write
  that succeeds: \<open>open(filename, "wb")\<close> raises for a name whose path is not that of a file
  in the cache directory (the empty name, a name with a slash into a missing directory),
  and no exception of the write is handled in the module.
\<close>

definition pickle_dump ::
  "string \<Rightarrow> ('v \<Rightarrow> 'b) \<Rightarrow> 'b state \<Rightarrow> string \<Rightarrow> 'v \<Rightarrow> 'b state" where
  "pickle_dump dir dumps s filename data =
     s\<lparr>files := (files s)(get_cache_data_path dir filename \<mapsto> dumps data)\<rparr>"

text \<open>
  The names that name a file directly in the cache directory, for which the write of
  \<open>pickle_dump\<close> can open its path: not empty, not \<open>.\<close> or \<open>..\<close>, without slash or NUL
  byte, and within the limits of 255 bytes for the name and 4095 for the path.
\<close>

definition cache_file_name :: "string \<Rightarrow> string \<Rightarrow> bool" where
  "cache_file_name dir name \<longleftrightarrow>
     name \<noteq> [] \<and> name \<noteq> ''.'' \<and> name \<noteq> ''..'' \<and>
     CHR ''/'' \<notin> set name \<and> CHR 0x00 \<notin> set name \<and>
     length name \<le> 255 \<and> length (get_cache_data_path dir name) \<le> 4095"

text \<open>
  What the recovery of \<open>pickle_load\<close> does to the state when the corrupted file at path
  \<open>p\<close> can be removed: one warning, and the file is gone.
\<close>

definition heal :: "string \<Rightarrow> 'b state \<Rightarrow> 'b state" where
  "heal p s = s\<lparr>files := (files s)(p := None), warnings := warnings s @ [corrupted_msg]\<rparr>"

subsection \<open>The cache manager\<close>

definition add_to_changed_files ::
  "'b env \<Rightarrow> 'b state \<Rightarrow> string \<Rightarrow> string set \<Rightarrow> (py_exception + unit) \<times> 'b state" where
  "add_to_changed_files e s project_dir changed =
     (case pickle_load (pickle_dir e) (load_changed e) s (changed_files_db e) [] of
        (Inl x, s1) \<Rightarrow> (Inl x, s1)
      | (Inr data, s1) \<Rightarrow>
          (let data' =
                 (case map_of data project_dir of
                    Some old \<Rightarrow> AList.update project_dir (old \<union> changed) data
                  | None \<Rightarrow> AList.update project_dir changed data)
           in (Inr (), pickle_dump (pickle_dir e) (dump_changed e) s1 (changed_files_db e) data')))"

text \<open>The result \<open>None\<close> is Python's \<open>None\<close>: the project is not in the store.\<close>

definition get_last_coala_run_time ::
  "'b env \<Rightarrow> 'b state \<Rightarrow> string
     \<Rightarrow> (py_exception + (string, int) dict option) \<times> 'b state" where
  "get_last_coala_run_time e s project_dir =
     (case pickle_load (pickle_dir e) (load_run_times e) s (caching_db e) [] of
        (Inl x, s1) \<Rightarrow> (Inl x, s1)
      | (Inr data, s1) \<Rightarrow> (Inr (map_of data project_dir), s1))"

text \<open>The loop \<open>for new_file in new_files: last_coala_run[new_file] = -1\<close>.\<close>

fun mark_new :: "(string, int) dict \<Rightarrow> string list \<Rightarrow> (string, int) dict" where
  "mark_new last_coala_run [] = last_coala_run"
| "mark_new last_coala_run (new_file # rest) =
     mark_new (AList.update new_file (- 1) last_coala_run) rest"

definition add_new_files_since_last_run ::
  "'b env \<Rightarrow> 'b state \<Rightarrow> string \<Rightarrow> (string, int) dict option \<Rightarrow> string list
     \<Rightarrow> (py_exception + unit) \<times> 'b state" where
  "add_new_files_since_last_run e s project_dir last_coala_run new_files =
     (let last_coala_run1 = (case last_coala_run of None \<Rightarrow> [] | Some d \<Rightarrow> d);
          last_coala_run2 = mark_new last_coala_run1 new_files
      in case pickle_load (pickle_dir e) (load_run_times e) s (caching_db e) [] of
           (Inl x, s1) \<Rightarrow> (Inl x, s1)
         | (Inr data, s1) \<Rightarrow>
             (Inr (), pickle_dump (pickle_dir e) (dump_run_times e) s1 (caching_db e)
                        (AList.update project_dir last_coala_run2 data)))"

text \<open>
  The loop of \<open>update_last_coala_run_time\<close> over the keys of \<open>data[project_dir]\<close>; the
  dictionary \<open>entry\<close> is the one being updated in place.
\<close>

fun advance_loop ::
  "changed_files \<Rightarrow> string \<Rightarrow> int \<Rightarrow> string list \<Rightarrow> (string, int) dict
     \<Rightarrow> (string, int) dict" where
  "advance_loop changed project_dir current_time [] entry = entry"
| "advance_loop changed project_dir current_time (file_name # rest) entry =
     advance_loop changed project_dir current_time rest
       (if (case map_of changed project_dir of
              None \<Rightarrow> True
            | Some cs \<Rightarrow> file_name \<notin> cs)
        then AList.update file_name current_time entry
        else entry)"

definition update_last_coala_run_time ::
  "'b env \<Rightarrow> int \<Rightarrow> 'b state \<Rightarrow> string \<Rightarrow> (py_exception + unit) \<times> 'b state" where
  "update_last_coala_run_time e current_time s project_dir =
     (case pickle_load (pickle_dir e) (load_run_times e) s (caching_db e) [] of
        (Inl x, s1) \<Rightarrow> (Inl x, s1)
      | (Inr data, s1) \<Rightarrow>
          (case pickle_load (pickle_dir e) (load_changed e) s1 (changed_files_db e) [] of
             (Inl x, s2) \<Rightarrow> (Inl x, s2)
           | (Inr changed, s2) \<Rightarrow>
               (case map_of data project_dir of
                  None \<Rightarrow> (Inr (), s2)
                | Some entry \<Rightarrow>
                    (let entry' = advance_loop changed project_dir current_time
                                    (map fst entry) entry;
                         data' = AList.update project_dir entry' data;
                         changed' = AList.update project_dir {} changed;
                         s3 = pickle_dump (pickle_dir e) (dump_run_times e) s2 (caching_db e) data'
                     in (Inr (), pickle_dump (pickle_dir e) (dump_changed e) s3
                                   (changed_files_db e) changed')))))"

subsection \<open>What the stores hold, and the environments the module runs in\<close>

text \<open>
  The content of a store as the module reads it: the value \<open>pickle_load\<close> returns with the
  empty dictionary as fallback, or the exception it lets through.
\<close>

definition run_time_store :: "'b env \<Rightarrow> 'b state \<Rightarrow> py_exception + run_times" where
  "run_time_store e s = fst (pickle_load (pickle_dir e) (load_run_times e) s (caching_db e) [])"

definition changed_files_store :: "'b env \<Rightarrow> 'b state \<Rightarrow> py_exception + changed_files" where
  "changed_files_store e s =
     fst (pickle_load (pickle_dir e) (load_changed e) s (changed_files_db e) [])"

text \<open>The entry of one project: an exception, no entry, or the entry.\<close>

definition run_time_entry ::
  "'b env \<Rightarrow> 'b state \<Rightarrow> string \<Rightarrow> py_exception + (string, int) dict option" where
  "run_time_entry e s project_dir = map_sum id (\<lambda>d. map_of d project_dir) (run_time_store e s)"

definition changed_files_entry ::
  "'b env \<Rightarrow> 'b state \<Rightarrow> string \<Rightarrow> py_exception + string set option" where
  "changed_files_entry e s project_dir =
     map_sum id (\<lambda>d. map_of d project_dir) (changed_files_store e s)"

text \<open>
  The environment the module is written for: the cache directory is an absolute path, the
  two stores are two files, and unpickling what was pickled gives the value back.
\<close>

definition env_ok :: "'b env \<Rightarrow> bool" where
  "env_ok e \<longleftrightarrow>
     isabs (pickle_dir e) \<and>
     get_cache_data_path (pickle_dir e) (caching_db e)
       \<noteq> get_cache_data_path (pickle_dir e) (changed_files_db e) \<and>
     (\<forall>d. load_run_times e (dump_run_times e d) = Loaded d) \<and>
     (\<forall>c. load_changed e (dump_changed e c) = Loaded c)"

subsection \<open>An example environment\<close>

text \<open>
  A blob is described by what unpickling it does: the pickle of a value of either store,
  or bytes on which \<open>pickle.load\<close> raises. The bytes \<open>[1] * 100\<close> of the module's test
  raise \<open>UnpicklingError\<close>, an empty file raises \<open>EOFError\<close>, and a pickle that names a
  module that cannot be imported raises \<open>ImportError\<close>. The example keeps the two stores
  apart: the pickle of one store is not read as a value of the other.
\<close>

datatype blob = RunTimes run_times | ChangedFiles changed_files | Unreadable py_exception

fun loads_run_times :: "blob \<Rightarrow> run_times unpickled" where
  "loads_run_times (RunTimes d) = Loaded d"
| "loads_run_times (ChangedFiles c) = Raises AttributeError"
| "loads_run_times (Unreadable x) = Raises x"

fun loads_changed :: "blob \<Rightarrow> changed_files unpickled" where
  "loads_changed (ChangedFiles c) = Loaded c"
| "loads_changed (RunTimes d) = Raises AttributeError"
| "loads_changed (Unreadable x) = Raises x"

definition example_env :: "blob env" where
  "example_env =
     \<lparr>pickle_dir = ''/home/u/.local/share/coala'',
      caching_db = ''caching.db'',
      changed_files_db = ''changed_files.db'',
      dump_run_times = RunTimes,
      load_run_times = loads_run_times,
      dump_changed = ChangedFiles,
      load_changed = loads_changed\<rparr>"

definition empty_state :: "blob state" where
  "empty_state = \<lparr>files = Map.empty, warnings = []\<rparr>"

text \<open>
  Example states: a corrupted file, a file to delete, and two stores that hold the projects
  \<open>P\<close> (two files never run, one of them changed) and \<open>Q\<close>.
\<close>

definition corrupt_state :: "py_exception \<Rightarrow> blob state" where
  "corrupt_state x =
     \<lparr>files = [''/home/u/.local/share/coala/corrupt_file'' \<mapsto> Unreadable x], warnings = []\<rparr>"


definition registered_state :: "blob state" where
  "registered_state =
     \<lparr>files =
        [''/home/u/.local/share/coala/caching.db'' \<mapsto>
           RunTimes [(''P'', [(''a.c'', - 1), (''b.c'', - 1)]), (''Q'', [(''x.c'', 7)])],
         ''/home/u/.local/share/coala/changed_files.db'' \<mapsto>
           ChangedFiles [(''P'', {''a.c''}), (''Q'', {''x.c''})]],
      warnings = []\<rparr>"

section \<open>Paths and the serializer\<close>

lemma isabs_join: "isabs dir \<Longrightarrow> isabs (get_cache_data_path dir f)"
  by (cases dir; cases f) (auto simp: get_cache_data_path_def os_path_join_def isabs_def)

lemma join_abs: "isabs p \<Longrightarrow> get_cache_data_path dir p = p"
  by (simp add: get_cache_data_path_def os_path_join_def)

lemma not_isabs_plain: "CHR ''/'' \<notin> set name \<Longrightarrow> \<not> isabs name"
proof (cases name)
  case Nil
  then show ?thesis by (simp add: isabs_def)
next
  case (Cons a rest)
  assume "CHR ''/'' \<notin> set name"
  with Cons have "a \<noteq> CHR ''/''" by (metis list.set_intros(1))
  with Cons show ?thesis by (simp add: isabs_def)
qed

lemma join_plain:
  assumes "dir \<noteq> []" "last dir \<noteq> CHR ''/''" "CHR ''/'' \<notin> set name"
  shows "get_cache_data_path dir name = dir @ CHR ''/'' # name"
  using assms(1,2) not_isabs_plain[OF assms(3)]
  by (simp add: get_cache_data_path_def os_path_join_def)




lemma delete_one_present:
  assumes "isabs p" "files s p = Some b"
  shows "delete_cache_files dir s [p] = (Inr True, heal p s)"
  using assms
  by (simp add: delete_cache_files_def join_abs os_remove_def warn_def heal_def)

lemma pickle_load_abs:
  assumes "isabs dir"
  shows "pickle_load dir loads s n fb =
    (case files s (get_cache_data_path dir n) of
       None \<Rightarrow> (Inr fb, s)
     | Some b \<Rightarrow> (case loads b of
          Loaded v \<Rightarrow> (Inr v, s)
        | Raises x \<Rightarrow> if x = UnpicklingError \<or> x = EOFError
            then (Inr fb, heal (get_cache_data_path dir n) s) else (Inl x, s)))"
  using isabs_join[OF assms, of n]
  by (auto simp: pickle_load_def Let_def delete_one_present split: option.splits unpickled.splits)








lemma example_path:
  "get_cache_data_path ''/home/u/.local/share/coala'' ''corrupt_file'' = ''/home/u/.local/share/coala/corrupt_file''"
  by (simp add: get_cache_data_path_def os_path_join_def isabs_def)


section \<open>Loading and writing the stores\<close>

lemma pickle_load_fst_cong:
  assumes "isabs dir" "files s1 (get_cache_data_path dir n) = files s (get_cache_data_path dir n)"
  shows "fst (pickle_load dir loads s1 n fb) = fst (pickle_load dir loads s n fb)"
  using assms by (simp add: pickle_load_abs split: option.splits unpickled.splits)

lemma pickle_load_frame:
  assumes "isabs dir" "q \<noteq> get_cache_data_path dir n"
  shows "files (snd (pickle_load dir loads s n fb)) q = files s q"
  using assms by (simp add: pickle_load_abs heal_def split: option.splits unpickled.splits)

lemma pickle_load_stable:
  assumes "isabs dir"
  shows "pickle_load dir loads (snd (pickle_load dir loads s n fb)) n fb
           = (fst (pickle_load dir loads s n fb), snd (pickle_load dir loads s n fb))"
  using assms by (simp add: pickle_load_abs heal_def split: option.splits unpickled.splits)

lemma pickle_load_le:
  assumes "isabs dir"
  shows "files (snd (pickle_load dir loads s n fb)) \<subseteq>\<^sub>m files s"
  using assms
  by (auto simp: pickle_load_abs heal_def map_le_def split: option.splits unpickled.splits)

lemma load_dump_run_times:
  "env_ok e \<Longrightarrow>
   pickle_load (pickle_dir e) (load_run_times e)
      (pickle_dump (pickle_dir e) (dump_run_times e) s (caching_db e) d) (caching_db e) fb
     = (Inr d, pickle_dump (pickle_dir e) (dump_run_times e) s (caching_db e) d)"
  by (simp add: env_ok_def pickle_load_def pickle_dump_def)

lemma load_dump_changed:
  "env_ok e \<Longrightarrow>
   pickle_load (pickle_dir e) (load_changed e)
      (pickle_dump (pickle_dir e) (dump_changed e) s (changed_files_db e) c) (changed_files_db e) fb
     = (Inr c, pickle_dump (pickle_dir e) (dump_changed e) s (changed_files_db e) c)"
  by (simp add: env_ok_def pickle_load_def pickle_dump_def)

lemma pickle_dump_frame:
  "q \<noteq> get_cache_data_path dir n \<Longrightarrow> files (pickle_dump dir dumps s n v) q = files s q"
  by (simp add: pickle_dump_def)

lemma read_back_run_times:
  assumes "env_ok e"
  shows "pickle_load (pickle_dir e) (load_run_times e)
           (pickle_dump (pickle_dir e) (dump_changed e)
              (pickle_dump (pickle_dir e) (dump_run_times e) s (caching_db e) d)
              (changed_files_db e) c) (caching_db e) fb
         = (Inr d, pickle_dump (pickle_dir e) (dump_changed e)
              (pickle_dump (pickle_dir e) (dump_run_times e) s (caching_db e) d)
              (changed_files_db e) c)"
  using assms by (simp add: env_ok_def pickle_load_def pickle_dump_def)

lemma map_of_mark_new:
  "map_of (mark_new d new) f = (if f \<in> set new then Some (- 1) else map_of d f)"
  by (induction new arbitrary: d) (auto simp: update_conv')

lemma add_new_files_run:
  assumes "env_ok e" "run_time_store e s = Inr data"
  shows "\<exists>s'. add_new_files_since_last_run e s p prior new = (Inr (), s') \<and>
           get_last_coala_run_time e s' p =
             (Inr (Some (mark_new (case prior of None \<Rightarrow> [] | Some d \<Rightarrow> d) new)), s')"
proof -
  obtain r s1 where l: "pickle_load (pickle_dir e) (load_run_times e) s (caching_db e) [] = (r, s1)"
    by (cases "pickle_load (pickle_dir e) (load_run_times e) s (caching_db e) []") 
  with assms(2) have r: "r = Inr data" by (simp add: run_time_store_def)
  let ?entry = "mark_new (case prior of None \<Rightarrow> [] | Some d \<Rightarrow> d) new"
  let ?s' = "pickle_dump (pickle_dir e) (dump_run_times e) s1 (caching_db e)
                        (AList.update p ?entry data)"
  have run: "add_new_files_since_last_run e s p prior new = (Inr (), ?s')"
    using l r by (simp add: add_new_files_since_last_run_def)
  have "get_last_coala_run_time e ?s' p = (Inr (Some ?entry), ?s')"
    by (simp add: get_last_coala_run_time_def load_dump_run_times[OF assms(1)] update_conv')
  with run show ?thesis by blast
qed

lemma map_of_advance_loop:
  "map_of (advance_loop changed p now ks entry) f =
     (if f \<in> set ks \<and> (case map_of changed p of None \<Rightarrow> True | Some cs \<Rightarrow> f \<notin> cs)
      then Some now else map_of entry f)"
  by (induction ks arbitrary: entry) (auto simp: update_conv' split: option.splits)

lemma keys_advance_loop:
  "set ks \<subseteq> set (map fst entry) \<Longrightarrow>
   map fst (advance_loop changed p now ks entry) = map fst entry"
proof (induction ks arbitrary: entry)
  case Nil
  then show ?case by simp
next
  case (Cons k ks)
  let ?entry' = "if (case map_of changed p of None \<Rightarrow> True | Some cs \<Rightarrow> k \<notin> cs)
                 then AList.update k now entry else entry"
  from Cons.prems have keys: "map fst ?entry' = map fst entry"
    by (simp add: update_keys)
  with Cons.prems have "set ks \<subseteq> set (map fst ?entry')" by simp
  from Cons.IH[OF this] keys show ?case by simp
qed

lemma update_run:
  assumes ok: "env_ok e"
    and rt: "run_time_store e s = Inr data"
    and cf: "changed_files_store e s = Inr changed"
  shows "\<exists>s2. files s2 \<subseteq>\<^sub>m files s \<and>
           pickle_load (pickle_dir e) (load_run_times e) s2 (caching_db e) [] = (Inr data, s2) \<and>
           pickle_load (pickle_dir e) (load_changed e) s2 (changed_files_db e) [] = (Inr changed, s2) \<and>
           ((\<forall>b. files s (get_cache_data_path (pickle_dir e) (caching_db e)) = Some b \<longrightarrow>
                  (\<exists>d. load_run_times e b = Loaded d)) \<and>
            (\<forall>b. files s (get_cache_data_path (pickle_dir e) (changed_files_db e)) = Some b \<longrightarrow>
                  (\<exists>c. load_changed e b = Loaded c)) \<longrightarrow> s2 = s) \<and>
           update_last_coala_run_time e now s p =
             (case map_of data p of
                None \<Rightarrow> (Inr (), s2)
              | Some entry \<Rightarrow>
                  (Inr (), pickle_dump (pickle_dir e) (dump_changed e)
                     (pickle_dump (pickle_dir e) (dump_run_times e) s2 (caching_db e)
                        (AList.update p (advance_loop changed p now (map fst entry) entry) data))
                     (changed_files_db e) (AList.update p {} changed)))"
proof -
  let ?dir = "pickle_dir e"
  let ?l1 = "pickle_load ?dir (load_run_times e) s (caching_db e) []"
  let ?s1 = "snd ?l1"
  let ?l2 = "pickle_load ?dir (load_changed e) ?s1 (changed_files_db e) []"
  let ?s2 = "snd ?l2"
  from ok have abs: "isabs ?dir"
    and ne: "get_cache_data_path ?dir (caching_db e) \<noteq> get_cache_data_path ?dir (changed_files_db e)"
    by (simp_all add: env_ok_def)
  have rt1: "fst ?l1 = Inr data" using rt by (simp add: run_time_store_def)
  then have l1: "?l1 = (Inr data, ?s1)" by (simp add: prod_eq_iff)
  have "fst ?l2 = fst (pickle_load ?dir (load_changed e) s (changed_files_db e) [])"
    by (rule pickle_load_fst_cong[OF abs]) (simp add: pickle_load_frame[OF abs ne[symmetric]])
  with cf have l2: "?l2 = (Inr changed, ?s2)" by (simp add: changed_files_store_def prod_eq_iff)
  have le: "files ?s2 \<subseteq>\<^sub>m files s"
    using pickle_load_le[OF abs, of "load_changed e" ?s1 "changed_files_db e" "[]"]
      pickle_load_le[OF abs, of "load_run_times e" s "caching_db e" "[]"]
    by (rule map_le_trans)
  have rt2: "pickle_load ?dir (load_run_times e) ?s2 (caching_db e) [] = (Inr data, ?s2)"
    using rt1 ne
    by (auto simp: pickle_load_abs[OF abs] heal_def split: option.splits unpickled.splits if_splits)
  have cf1: "fst ?l2 = Inr changed" using l2 by (metis fst_conv)
  have cf2: "pickle_load ?dir (load_changed e) ?s2 (changed_files_db e) [] = (Inr changed, ?s2)"
    using cf1 by (simp add: pickle_load_stable[OF abs])
  have same: "(\<forall>b. files s (get_cache_data_path ?dir (caching_db e)) = Some b \<longrightarrow>
                  (\<exists>d. load_run_times e b = Loaded d)) \<and>
            (\<forall>b. files s (get_cache_data_path ?dir (changed_files_db e)) = Some b \<longrightarrow>
                  (\<exists>c. load_changed e b = Loaded c)) \<longrightarrow> ?s2 = s"
    by (auto simp: pickle_load_abs[OF abs] split: option.splits)
  have run: "update_last_coala_run_time e now s p =
             (case map_of data p of
                None \<Rightarrow> (Inr (), ?s2)
              | Some entry \<Rightarrow>
                  (Inr (), pickle_dump ?dir (dump_changed e)
                     (pickle_dump ?dir (dump_run_times e) ?s2 (caching_db e)
                        (AList.update p (advance_loop changed p now (map fst entry) entry) data))
                     (changed_files_db e) (AList.update p {} changed)))"
    unfolding update_last_coala_run_time_def
    by (subst l1, simp only: prod.case sum.case, subst l2) (simp add: Let_def split: option.splits)
  from le rt2 cf2 same run show ?thesis by blast
qed

lemma run_time_entry_cong:
  "isabs (pickle_dir e) \<Longrightarrow>
   files s1 (get_cache_data_path (pickle_dir e) (caching_db e))
     = files s (get_cache_data_path (pickle_dir e) (caching_db e)) \<Longrightarrow>
   run_time_entry e s1 q = run_time_entry e s q"
  using pickle_load_fst_cong[of "pickle_dir e" s1 "caching_db e" s "load_run_times e" "[]"]
  by (simp add: run_time_entry_def run_time_store_def)

lemma changed_files_entry_cong:
  "isabs (pickle_dir e) \<Longrightarrow>
   files s1 (get_cache_data_path (pickle_dir e) (changed_files_db e))
     = files s (get_cache_data_path (pickle_dir e) (changed_files_db e)) \<Longrightarrow>
   changed_files_entry e s1 q = changed_files_entry e s q"
  using pickle_load_fst_cong[of "pickle_dir e" s1 "changed_files_db e" s "load_changed e" "[]"]
  by (simp add: changed_files_entry_def changed_files_store_def)

lemma run_time_entry_loaded:
  "isabs (pickle_dir e) \<Longrightarrow>
   run_time_entry e (snd (pickle_load (pickle_dir e) (load_run_times e) s (caching_db e) [])) q
     = run_time_entry e s q"
  by (simp add: run_time_entry_def run_time_store_def pickle_load_stable)

lemma changed_files_entry_loaded:
  "isabs (pickle_dir e) \<Longrightarrow>
   changed_files_entry e
      (snd (pickle_load (pickle_dir e) (load_changed e) s (changed_files_db e) [])) q
     = changed_files_entry e s q"
  by (simp add: changed_files_entry_def changed_files_store_def pickle_load_stable)

lemma isolation_add_to_changed_files:
  assumes ok: "env_ok e" and pq: "p \<noteq> q"
  shows "run_time_entry e (snd (add_to_changed_files e s p changed)) q = run_time_entry e s q \<and>
         changed_files_entry e (snd (add_to_changed_files e s p changed)) q
           = changed_files_entry e s q"
proof -
  let ?dir = "pickle_dir e"
  let ?l = "pickle_load ?dir (load_changed e) s (changed_files_db e) []"
  from ok have abs: "isabs ?dir"
    and ne: "get_cache_data_path ?dir (caching_db e) \<noteq> get_cache_data_path ?dir (changed_files_db e)"
    by (simp_all add: env_ok_def)
  have rt1: "run_time_entry e (snd ?l) q = run_time_entry e s q"
    by (rule run_time_entry_cong[OF abs]) (simp add: pickle_load_frame[OF abs ne])
  have cf1: "changed_files_entry e (snd ?l) q = changed_files_entry e s q"
    by (rule changed_files_entry_loaded[OF abs])
  show ?thesis
  proof (cases "fst ?l")
    case (Inl x)
    then have "?l = (Inl x, snd ?l)" by (simp add: prod_eq_iff)
    then have "add_to_changed_files e s p changed = (Inl x, snd ?l)"
      unfolding add_to_changed_files_def by (rule ssubst) simp
    then have "snd (add_to_changed_files e s p changed) = snd ?l" by simp
    with rt1 cf1 show ?thesis by simp
  next
    case (Inr data)
    let ?data' = "case map_of data p of
                    Some old \<Rightarrow> AList.update p (old \<union> changed) data
                  | None \<Rightarrow> AList.update p changed data"
    let ?s' = "pickle_dump ?dir (dump_changed e) (snd ?l) (changed_files_db e) ?data'"
    from Inr have "?l = (Inr data, snd ?l)" by (simp add: prod_eq_iff)
    then have "add_to_changed_files e s p changed = (Inr (), ?s')"
      unfolding add_to_changed_files_def by (rule ssubst) (simp add: Let_def)
    then have s': "snd (add_to_changed_files e s p changed) = ?s'" by simp
    have "run_time_entry e ?s' q = run_time_entry e (snd ?l) q"
      by (rule run_time_entry_cong[OF abs]) (simp add: pickle_dump_frame[OF ne])
    with rt1 have A: "run_time_entry e ?s' q = run_time_entry e s q" by simp
    have "changed_files_entry e ?s' q = Inr (map_of ?data' q)"
      by (simp add: changed_files_entry_def changed_files_store_def load_dump_changed[OF ok])
    also have "map_of ?data' q = map_of data q"
      using pq by (simp add: update_conv' split: option.splits)
    also have "Inr (map_of data q) = changed_files_entry e s q"
      using Inr by (simp add: changed_files_entry_def changed_files_store_def)
    finally have B: "changed_files_entry e ?s' q = changed_files_entry e s q" .
    from A B s' show ?thesis by simp
  qed
qed

lemma isolation_add_new_files:
  assumes ok: "env_ok e" and pq: "p \<noteq> q"
  shows "run_time_entry e (snd (add_new_files_since_last_run e s p prior new)) q
           = run_time_entry e s q \<and>
         changed_files_entry e (snd (add_new_files_since_last_run e s p prior new)) q
           = changed_files_entry e s q"
proof -
  let ?dir = "pickle_dir e"
  let ?l = "pickle_load ?dir (load_run_times e) s (caching_db e) []"
  from ok have abs: "isabs ?dir"
    and ne: "get_cache_data_path ?dir (caching_db e) \<noteq> get_cache_data_path ?dir (changed_files_db e)"
    by (simp_all add: env_ok_def)
  have cf1: "changed_files_entry e (snd ?l) q = changed_files_entry e s q"
    by (rule changed_files_entry_cong[OF abs]) (simp add: pickle_load_frame[OF abs ne[symmetric]])
  have rt1: "run_time_entry e (snd ?l) q = run_time_entry e s q"
    by (rule run_time_entry_loaded[OF abs])
  show ?thesis
  proof (cases "fst ?l")
    case (Inl x)
    then have "?l = (Inl x, snd ?l)" by (simp add: prod_eq_iff)
    then have "add_new_files_since_last_run e s p prior new = (Inl x, snd ?l)"
      unfolding add_new_files_since_last_run_def Let_def by (rule ssubst) simp
    then have "snd (add_new_files_since_last_run e s p prior new) = snd ?l" by simp
    with rt1 cf1 show ?thesis by simp
  next
    case (Inr data)
    let ?data' = "AList.update p (mark_new (case prior of None \<Rightarrow> [] | Some d \<Rightarrow> d) new) data"
    let ?s' = "pickle_dump ?dir (dump_run_times e) (snd ?l) (caching_db e) ?data'"
    from Inr have "?l = (Inr data, snd ?l)" by (simp add: prod_eq_iff)
    then have "add_new_files_since_last_run e s p prior new = (Inr (), ?s')"
      unfolding add_new_files_since_last_run_def Let_def by (rule ssubst) simp
    then have s': "snd (add_new_files_since_last_run e s p prior new) = ?s'" by simp
    have "changed_files_entry e ?s' q = changed_files_entry e (snd ?l) q"
      by (rule changed_files_entry_cong[OF abs]) (simp add: pickle_dump_frame[OF ne[symmetric]])
    with cf1 have A: "changed_files_entry e ?s' q = changed_files_entry e s q" by simp
    have "run_time_entry e ?s' q = Inr (map_of ?data' q)"
      by (simp add: run_time_entry_def run_time_store_def load_dump_run_times[OF ok])
    also have "map_of ?data' q = map_of data q"
      using pq by (simp add: update_conv')
    also have "Inr (map_of data q) = run_time_entry e s q"
      using Inr by (simp add: run_time_entry_def run_time_store_def)
    finally have B: "run_time_entry e ?s' q = run_time_entry e s q" .
    from A B s' show ?thesis by simp
  qed
qed

lemma isolation_update:
  assumes ok: "env_ok e" and pq: "p \<noteq> q"
  shows "run_time_entry e (snd (update_last_coala_run_time e now s p)) q = run_time_entry e s q \<and>
         changed_files_entry e (snd (update_last_coala_run_time e now s p)) q
           = changed_files_entry e s q"
proof -
  let ?dir = "pickle_dir e"
  let ?l1 = "pickle_load ?dir (load_run_times e) s (caching_db e) []"
  let ?s1 = "snd ?l1"
  let ?l2 = "pickle_load ?dir (load_changed e) ?s1 (changed_files_db e) []"
  let ?s2 = "snd ?l2"
  from ok have abs: "isabs ?dir"
    and ne: "get_cache_data_path ?dir (caching_db e) \<noteq> get_cache_data_path ?dir (changed_files_db e)"
    by (simp_all add: env_ok_def)
  have rt1: "run_time_entry e ?s1 q = run_time_entry e s q"
    by (rule run_time_entry_loaded[OF abs])
  have cf1: "changed_files_entry e ?s1 q = changed_files_entry e s q"
    by (rule changed_files_entry_cong[OF abs]) (simp add: pickle_load_frame[OF abs ne[symmetric]])
  have "run_time_entry e ?s2 q = run_time_entry e ?s1 q"
    by (rule run_time_entry_cong[OF abs]) (simp add: pickle_load_frame[OF abs ne])
  with rt1 have rt2: "run_time_entry e ?s2 q = run_time_entry e s q" by simp
  have "changed_files_entry e ?s2 q = changed_files_entry e ?s1 q"
    by (rule changed_files_entry_loaded[OF abs])
  with cf1 have cf2: "changed_files_entry e ?s2 q = changed_files_entry e s q" by simp
  show ?thesis
  proof (cases "fst ?l1")
    case (Inl x)
    then have "?l1 = (Inl x, ?s1)" by (simp add: prod_eq_iff)
    then have "update_last_coala_run_time e now s p = (Inl x, ?s1)"
      unfolding update_last_coala_run_time_def by (rule ssubst) simp
    with rt1 cf1 show ?thesis by simp
  next
    case (Inr data)
    then have l1: "?l1 = (Inr data, ?s1)" by (simp add: prod_eq_iff)
    show ?thesis
    proof (cases "fst ?l2")
      case (Inl x)
      then have l2: "?l2 = (Inl x, ?s2)" by (simp add: prod_eq_iff)
      have "update_last_coala_run_time e now s p = (Inl x, ?s2)"
        unfolding update_last_coala_run_time_def
        by (subst l1, simp only: prod.case sum.case, subst l2) simp
      with rt2 cf2 show ?thesis by simp
    next
      case changed: (Inr changed)
      then have l2: "?l2 = (Inr changed, ?s2)" by (simp add: prod_eq_iff)
      show ?thesis
      proof (cases "map_of data p")
        case None
        have "update_last_coala_run_time e now s p = (Inr (), ?s2)"
          unfolding update_last_coala_run_time_def
          by (subst l1, simp only: prod.case sum.case, subst l2) (simp add: None)
        with rt2 cf2 show ?thesis by simp
      next
        case (Some entry)
        let ?data' = "AList.update p (advance_loop changed p now (map fst entry) entry) data"
        let ?changed' = "AList.update p {} changed"
        let ?s' = "pickle_dump ?dir (dump_changed e)
                     (pickle_dump ?dir (dump_run_times e) ?s2 (caching_db e) ?data')
                     (changed_files_db e) ?changed'"
        have run: "update_last_coala_run_time e now s p = (Inr (), ?s')"
          unfolding update_last_coala_run_time_def
          by (subst l1, simp only: prod.case sum.case, subst l2) (simp add: Some Let_def)
        have "run_time_entry e ?s' q = Inr (map_of ?data' q)"
          by (simp add: run_time_entry_def run_time_store_def read_back_run_times[OF ok])
        also have "map_of ?data' q = map_of data q"
          using pq by (simp add: update_conv')
        also have "Inr (map_of data q) = run_time_entry e s q"
          using Inr by (simp add: run_time_entry_def run_time_store_def)
        finally have A: "run_time_entry e ?s' q = run_time_entry e s q" .
        have "changed_files_entry e ?s' q = Inr (map_of ?changed' q)"
          by (simp add: changed_files_entry_def changed_files_store_def load_dump_changed[OF ok])
        also have "map_of ?changed' q = map_of changed q"
          using pq by (simp add: update_conv')
        also have "Inr (map_of changed q) = changed_files_entry e ?s1 q"
          using changed by (simp add: changed_files_entry_def changed_files_store_def)
        finally have B: "changed_files_entry e ?s' q = changed_files_entry e s q"
          using cf1 by simp
        from A B run show ?thesis by simp
      qed
    qed
  qed
qed

section \<open>The example environment\<close>

lemma example_env_ok: "env_ok example_env"
  by (simp add: env_ok_def example_env_def isabs_def get_cache_data_path_def os_path_join_def)

lemma empty_stores:
  "run_time_store example_env empty_state = Inr []"
  "changed_files_store example_env empty_state = Inr []"
  by (simp_all add: run_time_store_def changed_files_store_def pickle_load_def empty_state_def)

lemma example_paths:
  "get_cache_data_path (pickle_dir example_env) (caching_db example_env)
     = ''/home/u/.local/share/coala/caching.db''"
  "get_cache_data_path (pickle_dir example_env) (changed_files_db example_env)
     = ''/home/u/.local/share/coala/changed_files.db''"
  by (simp_all add: example_env_def get_cache_data_path_def os_path_join_def isabs_def)

lemma registered_stores:
  "run_time_store example_env registered_state
     = Inr [(''P'', [(''a.c'', - 1), (''b.c'', - 1)]), (''Q'', [(''x.c'', 7)])]"
  "changed_files_store example_env registered_state
     = Inr [(''P'', {''a.c''}), (''Q'', {''x.c''})]"
  by (simp_all add: run_time_store_def changed_files_store_def pickle_load_def example_paths
        registered_state_def, simp_all add: example_env_def)

lemma registered_entries:
  "run_time_entry example_env registered_state ''Q'' = Inr (Some [(''x.c'', 7)])"
  "changed_files_entry example_env registered_state ''Q'' = Inr (Some {''x.c''})"
  by (simp_all add: run_time_entry_def changed_files_entry_def registered_stores)

section \<open>The cache manager\<close>

text \<open>
  Claim C1 (\<open>update_last_coala_run_time\<close>, the clock). In an environment as described by
  \<open>env_ok\<close>, let the project have an entry in the run-time store and let the changed-files
  store be readable (absent, unpickled to a value, or corrupted and recovered).
  Then \<open>update_last_coala_run_time\<close> returns, and the entry read back afterwards has the
  same file paths in the same order; every path that is not in the project's set of
  changed files, or any path at all when the project has no such set, carries the current
  time, and every path in the set keeps the time it had (the \<open>-1\<close> of a file never run,
  or an earlier run time).
\<close>

theorem update_advances_unchanged_files:
  assumes "env_ok e"
    and "run_time_store e s = Inr data" and "map_of data p = Some entry"
    and "changed_files_store e s = Inr changed"
  shows "\<exists>s' entry'.
           update_last_coala_run_time e now s p = (Inr (), s') \<and>
           get_last_coala_run_time e s' p = (Inr (Some entry'), s') \<and>
           map fst entry' = map fst entry \<and>
           (\<forall>f t. map_of entry f = Some t \<longrightarrow>
              map_of entry' f =
                (if (case map_of changed p of None \<Rightarrow> False | Some cs \<Rightarrow> f \<in> cs)
                 then Some t else Some now))"
proof -
  let ?entry' = "advance_loop changed p now (map fst entry) entry"
  from update_run[OF assms(1,2,4), of now p] assms(3) obtain s2 where
    run: "update_last_coala_run_time e now s p =
            (Inr (), pickle_dump (pickle_dir e) (dump_changed e)
                     (pickle_dump (pickle_dir e) (dump_run_times e) s2 (caching_db e)
                        (AList.update p ?entry' data))
                     (changed_files_db e) (AList.update p {} changed))"
    by auto
  let ?s' = "pickle_dump (pickle_dir e) (dump_changed e)
                     (pickle_dump (pickle_dir e) (dump_run_times e) s2 (caching_db e)
                        (AList.update p ?entry' data))
                     (changed_files_db e) (AList.update p {} changed)"
  have get: "get_last_coala_run_time e ?s' p = (Inr (Some ?entry'), ?s')"
    by (simp add: get_last_coala_run_time_def read_back_run_times[OF assms(1)] update_conv')
  have keys: "map fst ?entry' = map fst entry"
    by (rule keys_advance_loop) simp
  have vals: "\<forall>f t. map_of entry f = Some t \<longrightarrow>
              map_of ?entry' f =
                (if (case map_of changed p of None \<Rightarrow> False | Some cs \<Rightarrow> f \<in> cs)
                 then Some t else Some now)"
    by (auto simp: map_of_advance_loop split: option.splits dest: map_of_SomeD
             intro: rev_image_eqI)
  from run get keys vals show ?thesis by blast
qed

theorem update_advances_unchanged_files_witness:
  "env_ok example_env \<and>
   run_time_store example_env registered_state
     = Inr [(''P'', [(''a.c'', - 1), (''b.c'', - 1)]), (''Q'', [(''x.c'', 7)])] \<and>
   map_of [(''P'', [(''a.c'', - 1), (''b.c'', - 1)]), (''Q'', [(''x.c'', 7::int)])] ''P''
     = Some [(''a.c'', - 1), (''b.c'', - 1)] \<and>
   changed_files_store example_env registered_state
     = Inr [(''P'', {''a.c''}), (''Q'', {''x.c''})] \<and>
   (\<exists>s' entry'.
      update_last_coala_run_time example_env 1462000000 registered_state ''P'' = (Inr (), s') \<and>
      get_last_coala_run_time example_env s' ''P'' = (Inr (Some entry'), s') \<and>
      map_of entry' ''a.c'' = Some (- 1) \<and> map_of entry' ''b.c'' = Some 1462000000)"
proof -
  have m: "map_of [(''P'', [(''a.c'', - 1), (''b.c'', - 1)]), (''Q'', [(''x.c'', (7::int))])] ''P''
     = Some [(''a.c'', - 1), (''b.c'', - 1)]" by simp
  from update_advances_unchanged_files [OF example_env_ok registered_stores(1) m
      registered_stores(2), of 1462000000]
  obtain s' entry' where
    1: "update_last_coala_run_time example_env 1462000000 registered_state ''P'' = (Inr (), s')"
    and 2: "get_last_coala_run_time example_env s' ''P'' = (Inr (Some entry'), s')"
    and 3: "\<forall>f t. map_of [(''a.c'', - 1), (''b.c'', - 1)] f = Some t \<longrightarrow>
              map_of entry' f =
                (if (case map_of [(''P'', {''a.c''}), (''Q'', {''x.c''})] ''P'' of
                       None \<Rightarrow> False | Some cs \<Rightarrow> f \<in> cs)
                 then Some t else Some 1462000000)"
    by blast
  from 3 [rule_format, of "''a.c''" "- 1"] have a: "map_of entry' ''a.c'' = Some (- 1)" by simp
  from 3 [rule_format, of "''b.c''" "- 1"] have b: "map_of entry' ''b.c'' = Some 1462000000"
    by simp
  from 1 2 a b example_env_ok registered_stores m show ?thesis by blast
qed

text \<open>
  Claim C2 (no entry, no effect). Let the project have no entry in the run-time store, both
  stores being readable. Then \<open>update_last_coala_run_time\<close> returns without writing: every
  file on disk afterwards was there before with the same content, both stores read as
  before, the project still has no run-time entry and its set of changed files is not
  reset. When no store file is corrupted the state is unchanged altogether (a corrupted
  store file is removed by the load, which leaves an empty store as before).
\<close>

theorem update_without_entry_is_noop:
  assumes "env_ok e"
    and "run_time_store e s = Inr data" and "map_of data p = None"
    and "changed_files_store e s = Inr changed"
  shows "\<exists>s'. update_last_coala_run_time e now s p = (Inr (), s') \<and>
              files s' \<subseteq>\<^sub>m files s \<and>
              run_time_store e s' = Inr data \<and>
              get_last_coala_run_time e s' p = (Inr None, s') \<and>
              changed_files_store e s' = Inr changed \<and>
              changed_files_entry e s' p = changed_files_entry e s p \<and>
              ((\<forall>b. files s (get_cache_data_path (pickle_dir e) (caching_db e)) = Some b \<longrightarrow>
                  (\<exists>d. load_run_times e b = Loaded d)) \<and>
               (\<forall>b. files s (get_cache_data_path (pickle_dir e) (changed_files_db e)) = Some b \<longrightarrow>
                  (\<exists>c. load_changed e b = Loaded c)) \<longrightarrow> s' = s)"
proof -
  from update_run[OF assms(1,2,4), of now p] assms(3) obtain s2 where
    run: "update_last_coala_run_time e now s p = (Inr (), s2)"
    and le: "files s2 \<subseteq>\<^sub>m files s"
    and rt: "pickle_load (pickle_dir e) (load_run_times e) s2 (caching_db e) [] = (Inr data, s2)"
    and cf: "pickle_load (pickle_dir e) (load_changed e) s2 (changed_files_db e) [] = (Inr changed, s2)"
    and same: "(\<forall>b. files s (get_cache_data_path (pickle_dir e) (caching_db e)) = Some b \<longrightarrow>
                  (\<exists>d. load_run_times e b = Loaded d)) \<and>
               (\<forall>b. files s (get_cache_data_path (pickle_dir e) (changed_files_db e)) = Some b \<longrightarrow>
                  (\<exists>c. load_changed e b = Loaded c)) \<longrightarrow> s2 = s"
    by auto
  have 1: "run_time_store e s2 = Inr data" using rt by (simp add: run_time_store_def)
  have 2: "get_last_coala_run_time e s2 p = (Inr None, s2)"
    using rt assms(3) by (simp add: get_last_coala_run_time_def)
  have 3: "changed_files_store e s2 = Inr changed" using cf by (simp add: changed_files_store_def)
  have 4: "changed_files_entry e s2 p = changed_files_entry e s p"
    using 3 assms(4) by (simp add: changed_files_entry_def)
  from run le 1 2 3 4 same show ?thesis by blast
qed

theorem update_without_entry_is_noop_witness:
  "env_ok example_env \<and>
   run_time_store example_env registered_state
     = Inr [(''P'', [(''a.c'', - 1), (''b.c'', - 1)]), (''Q'', [(''x.c'', 7)])] \<and>
   map_of [(''P'', [(''a.c'', - 1), (''b.c'', - 1)]), (''Q'', [(''x.c'', 7::int)])] ''R'' = None \<and>
   changed_files_store example_env registered_state
     = Inr [(''P'', {''a.c''}), (''Q'', {''x.c''})] \<and>
   update_last_coala_run_time example_env 1462000000 registered_state ''R''
     = (Inr (), registered_state) \<and>
   get_last_coala_run_time example_env registered_state ''R'' = (Inr None, registered_state)"
proof -
  have m: "map_of [(''P'', [(''a.c'', - 1), (''b.c'', - 1)]), (''Q'', [(''x.c'', (7::int))])] ''R''
     = None" by simp
  have c1: "\<forall>b. files registered_state
               (get_cache_data_path (pickle_dir example_env) (caching_db example_env)) = Some b \<longrightarrow>
              (\<exists>d. load_run_times example_env b = Loaded d)"
    by (simp add: example_paths registered_state_def) (simp add: example_env_def)
  have c2: "\<forall>b. files registered_state
               (get_cache_data_path (pickle_dir example_env) (changed_files_db example_env)) = Some b \<longrightarrow>
              (\<exists>c. load_changed example_env b = Loaded c)"
    by (simp add: example_paths registered_state_def) (simp add: example_env_def)
  from update_without_entry_is_noop [OF example_env_ok registered_stores(1) m
      registered_stores(2), of 1462000000] c1 c2
  have "update_last_coala_run_time example_env 1462000000 registered_state ''R''
     = (Inr (), registered_state) \<and>
   get_last_coala_run_time example_env registered_state ''R'' = (Inr None, registered_state)"
    by auto
  with example_env_ok registered_stores m show ?thesis by blast
qed

text \<open>
  Claim C3 (changes are consumed). Let the project have an entry in the run-time store, the
  changed-files store being readable. After \<open>update_last_coala_run_time\<close> the
  changed-files store, read from its file, holds the empty set for the project.
\<close>

theorem update_resets_changed_files:
  assumes "env_ok e"
    and "run_time_store e s = Inr data" and "map_of data p = Some entry"
    and "changed_files_store e s = Inr changed"
  shows "\<exists>s'. update_last_coala_run_time e now s p = (Inr (), s') \<and>
              changed_files_entry e s' p = Inr (Some {}) \<and>
              (\<exists>changed'.
                 files s' (get_cache_data_path (pickle_dir e) (changed_files_db e))
                   = Some (dump_changed e changed') \<and>
                 map_of changed' p = Some {})"
proof -
  from update_run[OF assms(1,2,4), of now p] assms(3) obtain s3 where
    run: "update_last_coala_run_time e now s p =
            (Inr (), pickle_dump (pickle_dir e) (dump_changed e) s3
                     (changed_files_db e) (AList.update p {} changed))"
    by auto
  have "changed_files_entry e (pickle_dump (pickle_dir e) (dump_changed e) s3
                     (changed_files_db e) (AList.update p {} changed)) p = Inr (Some {})"
    by (simp add: changed_files_entry_def changed_files_store_def
          load_dump_changed[OF assms(1)] update_conv')
  moreover have "files (pickle_dump (pickle_dir e) (dump_changed e) s3
                     (changed_files_db e) (AList.update p {} changed))
                   (get_cache_data_path (pickle_dir e) (changed_files_db e))
                 = Some (dump_changed e (AList.update p {} changed))"
    by (simp add: pickle_dump_def)
  moreover have "map_of (AList.update p {} changed) p = Some {}"
    by (simp add: update_conv')
  ultimately show ?thesis using run by blast
qed

theorem update_resets_changed_files_witness:
  "env_ok example_env \<and>
   run_time_store example_env registered_state
     = Inr [(''P'', [(''a.c'', - 1), (''b.c'', - 1)]), (''Q'', [(''x.c'', 7)])] \<and>
   map_of [(''P'', [(''a.c'', - 1), (''b.c'', - 1)]), (''Q'', [(''x.c'', 7::int)])] ''P''
     = Some [(''a.c'', - 1), (''b.c'', - 1)] \<and>
   changed_files_store example_env registered_state
     = Inr [(''P'', {''a.c''}), (''Q'', {''x.c''})] \<and>
   (\<exists>s'. update_last_coala_run_time example_env 1462000000 registered_state ''P'' = (Inr (), s') \<and>
         changed_files_entry example_env s' ''P'' = Inr (Some {}))"
proof -
  have m: "map_of [(''P'', [(''a.c'', - 1), (''b.c'', - 1)]), (''Q'', [(''x.c'', (7::int))])] ''P''
     = Some [(''a.c'', - 1), (''b.c'', - 1)]" by simp
  from update_resets_changed_files [OF example_env_ok registered_stores(1) m
      registered_stores(2), of 1462000000] example_env_ok registered_stores m
  show ?thesis by blast
qed

text \<open>
  Claim C4 (registration). For every project, prior data (\<open>None\<close> counts as the empty
  dictionary) and list of new files, \<open>add_new_files_since_last_run\<close> on a readable
  run-time store writes, as the whole entry of the project, the prior data with every new
  file at \<open>-1\<close>, whatever entry the store held before: that is what
  \<open>get_last_coala_run_time\<close> returns afterwards. Registering \<open>a\<close> and \<open>b\<close> with
  empty prior data gives \<open>{a: -1, b: -1}\<close>.
\<close>

theorem add_new_files_registers:
  assumes "env_ok e" "run_time_store e s = Inr data"
  shows "\<exists>s' entry.
           add_new_files_since_last_run e s p prior new = (Inr (), s') \<and>
           get_last_coala_run_time e s' p = (Inr (Some entry), s') \<and>
           (\<forall>f. map_of entry f =
                  (if f \<in> set new then Some (- 1)
                   else map_of (case prior of None \<Rightarrow> [] | Some d \<Rightarrow> d) f))"
  using add_new_files_run[OF assms, of p prior new] by (auto simp: map_of_mark_new)

theorem add_new_files_registers_witness:
  "env_ok example_env \<and> run_time_store example_env empty_state = Inr [] \<and>
   (\<exists>s' entry.
      add_new_files_since_last_run example_env empty_state ''coala_test'' (Some [])
         [''a'', ''b''] = (Inr (), s') \<and>
      get_last_coala_run_time example_env s' ''coala_test'' = (Inr (Some entry), s') \<and>
      map_of entry = [''a'' \<mapsto> - 1, ''b'' \<mapsto> - 1])"
proof -
  from add_new_files_registers [OF example_env_ok empty_stores(1), of "''coala_test''" "Some []" "[''a'', ''b'']"]
  obtain s' entry where
    1: "add_new_files_since_last_run example_env empty_state ''coala_test'' (Some [])
         [''a'', ''b''] = (Inr (), s')"
    and 2: "get_last_coala_run_time example_env s' ''coala_test'' = (Inr (Some entry), s')"
    and 3: "\<forall>f. map_of entry f = (if f \<in> set [''a'', ''b''] then Some (- 1)
                   else map_of (case Some [] of None \<Rightarrow> [] | Some d \<Rightarrow> d) f)"
    by blast
  from 3 have "map_of entry = [''a'' \<mapsto> - 1, ''b'' \<mapsto> - 1]"
    by (auto simp: fun_eq_iff)
  with 1 2 example_env_ok empty_stores(1) show ?thesis by blast
qed

text \<open>
  Claim C5 (\<open>get_last_coala_run_time\<close>). When the store file is absent the result is
  \<open>None\<close>; when it holds the pickle of a dictionary the result is that dictionary's
  lookup of the project: the project's entry when there is one, and \<open>None\<close>, which is not
  the empty dictionary \<open>Some []\<close>, when there is none. Reading changes nothing.
\<close>

theorem get_last_coala_run_time_result:
  "(files s (get_cache_data_path (pickle_dir e) (caching_db e)) = None \<longrightarrow>
            get_last_coala_run_time e s p = (Inr None, s)) \<and>
         (\<forall>b data. files s (get_cache_data_path (pickle_dir e) (caching_db e)) = Some b \<and>
             load_run_times e b = Loaded data \<longrightarrow>
            get_last_coala_run_time e s p = (Inr (map_of data p), s) \<and>
            (p \<notin> fst ` set data \<longrightarrow> fst (get_last_coala_run_time e s p) = Inr None) \<and>
            (\<forall>entry. (p, entry) \<in> set data \<and> distinct (map fst data) \<longrightarrow>
               fst (get_last_coala_run_time e s p) = Inr (Some entry)))"
  by (auto simp: get_last_coala_run_time_def pickle_load_def map_of_eq_None_iff)

theorem get_last_coala_run_time_result_witness:
  "get_last_coala_run_time example_env empty_state ''P'' = (Inr None, empty_state) \<and>
   get_last_coala_run_time example_env registered_state ''P''
     = (Inr (Some [(''a.c'', - 1), (''b.c'', - 1)]), registered_state) \<and>
   get_last_coala_run_time example_env registered_state ''R'' = (Inr None, registered_state)"
proof -
  have f0: "files empty_state
      (get_cache_data_path (pickle_dir example_env) (caching_db example_env)) = None"
    by (simp add: empty_state_def)
  have f1: "files registered_state
      (get_cache_data_path (pickle_dir example_env) (caching_db example_env))
        = Some (RunTimes [(''P'', [(''a.c'', - 1), (''b.c'', - 1)]), (''Q'', [(''x.c'', 7)])])"
    by (simp add: example_paths registered_state_def)
  have l1: "load_run_times example_env
       (RunTimes [(''P'', [(''a.c'', - 1), (''b.c'', - 1)]), (''Q'', [(''x.c'', 7)])])
     = Loaded [(''P'', [(''a.c'', - 1), (''b.c'', - 1)]), (''Q'', [(''x.c'', 7)])]"
    by (simp add: example_env_def)
  from get_last_coala_run_time_result [of empty_state example_env "''P''"] f0
  have a: "get_last_coala_run_time example_env empty_state ''P'' = (Inr None, empty_state)"
    by blast
  from get_last_coala_run_time_result [of registered_state example_env "''P''"] f1 l1
  have "get_last_coala_run_time example_env registered_state ''P''
     = (Inr (map_of [(''P'', [(''a.c'', - 1), (''b.c'', - 1)]), (''Q'', [(''x.c'', 7)])] ''P''),
        registered_state)"
    by blast
  then have b: "get_last_coala_run_time example_env registered_state ''P''
     = (Inr (Some [(''a.c'', - 1), (''b.c'', - 1)]), registered_state)" by simp
  from get_last_coala_run_time_result [of registered_state example_env "''R''"] f1 l1
  have "get_last_coala_run_time example_env registered_state ''R''
     = (Inr (map_of [(''P'', [(''a.c'', - 1), (''b.c'', - 1)]), (''Q'', [(''x.c'', 7)])] ''R''),
        registered_state)"
    by blast
  then have c: "get_last_coala_run_time example_env registered_state ''R''
     = (Inr None, registered_state)" by simp
  from a b c show ?thesis by blast
qed

text \<open>
  Claim C6 (isolation of projects). For two distinct projects \<open>P\<close> and \<open>Q\<close>, each of
  \<open>add_to_changed_files\<close>, \<open>add_new_files_since_last_run\<close> and
  \<open>update_last_coala_run_time\<close> called for \<open>P\<close> leaves what both stores hold for \<open>Q\<close> as
  it was, whether the call returns or raises.
\<close>

theorem project_isolation:
  assumes "env_ok e" and "p \<noteq> q"
  shows "run_time_entry e (snd (add_to_changed_files e s p changed)) q = run_time_entry e s q \<and>
         changed_files_entry e (snd (add_to_changed_files e s p changed)) q
           = changed_files_entry e s q \<and>
         run_time_entry e (snd (add_new_files_since_last_run e s p prior new)) q
           = run_time_entry e s q \<and>
         changed_files_entry e (snd (add_new_files_since_last_run e s p prior new)) q
           = changed_files_entry e s q \<and>
         run_time_entry e (snd (update_last_coala_run_time e now s p)) q = run_time_entry e s q \<and>
         changed_files_entry e (snd (update_last_coala_run_time e now s p)) q
           = changed_files_entry e s q"
  using isolation_add_to_changed_files[OF assms] isolation_add_new_files[OF assms]
    isolation_update[OF assms]
  by blast

theorem project_isolation_witness:
  "env_ok example_env \<and> ''P'' \<noteq> ''Q'' \<and>
   run_time_entry example_env
     (snd (add_to_changed_files example_env registered_state ''P'' {''b.c''})) ''Q''
       = Inr (Some [(''x.c'', 7)]) \<and>
   changed_files_entry example_env
     (snd (add_to_changed_files example_env registered_state ''P'' {''b.c''})) ''Q''
       = Inr (Some {''x.c''}) \<and>
   run_time_entry example_env
     (snd (add_new_files_since_last_run example_env registered_state ''P'' None [''c.c''])) ''Q''
       = Inr (Some [(''x.c'', 7)]) \<and>
   changed_files_entry example_env
     (snd (add_new_files_since_last_run example_env registered_state ''P'' None [''c.c''])) ''Q''
       = Inr (Some {''x.c''}) \<and>
   run_time_entry example_env
     (snd (update_last_coala_run_time example_env 1462000000 registered_state ''P'')) ''Q''
       = Inr (Some [(''x.c'', 7)]) \<and>
   changed_files_entry example_env
     (snd (update_last_coala_run_time example_env 1462000000 registered_state ''P'')) ''Q''
       = Inr (Some {''x.c''})"
proof -
  have pq: "''P'' \<noteq> ''Q''" by simp
  from project_isolation [OF example_env_ok pq, of registered_state "{''b.c''}" None "[''c.c'']"
      1462000000] registered_entries example_env_ok pq
  show ?thesis by simp
qed

section \<open>The serializer\<close>

text \<open>
  Claim C7 (round trip). For every name of a file in the cache directory (the names for
  which \<open>pickle_dump\<close> can open its path), every value \<open>v\<close> that pickle can serialize
  (what \<open>pickle.load\<close> makes of the blob \<open>pickle.dump\<close> wrote for \<open>v\<close> is \<open>v\<close>) and
  every fallback, \<open>pickle_dump\<close> of \<open>v\<close> under the name followed by \<open>pickle_load\<close> of
  the name returns \<open>v\<close>. The write puts the pickle of \<open>v\<close> at the path of the name and
  touches no other file; the load changes nothing.
\<close>

theorem pickle_round_trip:
  assumes "cache_file_name dir name" and "loads (dumps v) = Loaded v"
  shows "pickle_load dir loads (pickle_dump dir dumps s name v) name fallback
           = (Inr v, pickle_dump dir dumps s name v) \<and>
         files (pickle_dump dir dumps s name v) (get_cache_data_path dir name) = Some (dumps v) \<and>
         (\<forall>q. q \<noteq> get_cache_data_path dir name \<longrightarrow>
            files (pickle_dump dir dumps s name v) q = files s q) \<and>
         warnings (pickle_dump dir dumps s name v) = warnings s \<and>
         (dir \<noteq> [] \<and> last dir \<noteq> CHR ''/'' \<longrightarrow>
            get_cache_data_path dir name = dir @ ''/'' @ name)"
proof -
  from assms(1) have "CHR ''/'' \<notin> set name" by (simp add: cache_file_name_def)
  then have "dir \<noteq> [] \<and> last dir \<noteq> CHR ''/'' \<longrightarrow>
               get_cache_data_path dir name = dir @ ''/'' @ name"
    by (simp add: join_plain)
  with assms(2) show ?thesis by (simp add: pickle_load_def pickle_dump_def)
qed

theorem pickle_round_trip_witness:
  "cache_file_name ''/tmp'' ''test_file'' \<and>
   id (Loaded [(''answer'', 42::int)]) = Loaded [(''answer'', 42)] \<and>
   pickle_load ''/tmp'' id
       (pickle_dump ''/tmp'' Loaded \<lparr>files = Map.empty, warnings = []\<rparr> ''test_file''
          [(''answer'', 42::int)])
       ''test_file'' []
     = (Inr [(''answer'', 42)],
        \<lparr>files = [''/tmp/test_file'' \<mapsto> Loaded [(''answer'', 42)]], warnings = []\<rparr>)"
proof -
  have n: "cache_file_name ''/tmp'' ''test_file''"
    by (simp add: cache_file_name_def get_cache_data_path_def os_path_join_def isabs_def)
  have l: "id (Loaded [(''answer'', 42::int)]) = Loaded [(''answer'', 42)]" by simp
  have d: "pickle_dump ''/tmp'' Loaded \<lparr>files = Map.empty, warnings = []\<rparr> ''test_file''
          [(''answer'', 42::int)]
        = \<lparr>files = [''/tmp/test_file'' \<mapsto> Loaded [(''answer'', 42)]], warnings = []\<rparr>"
    by (simp add: pickle_dump_def get_cache_data_path_def os_path_join_def isabs_def)
  from pickle_round_trip [where dir = "''/tmp''" and name = "''test_file''" and loads = id
      and dumps = Loaded and v = "[(''answer'', 42::int)]"
      and s = "\<lparr>files = Map.empty, warnings = []\<rparr>" and fallback = "[]"] n l d
  show ?thesis by simp
qed

text \<open>
  Claim C8 (corruption), in the form that holds of the code. Let the cache directory be absolute and let the store
  file hold a blob that cannot be unpickled. When \<open>pickle.load\<close> raises \<open>UnpicklingError\<close>
  or \<open>EOFError\<close>, \<open>pickle_load\<close> returns the fallback, warns once and the file no longer
  exists afterwards. Every other exception of \<open>pickle.load\<close> (the Python library names
  \<open>AttributeError\<close>, \<open>ImportError\<close> and \<open>IndexError\<close> among them) is outside the
  \<open>except\<close> clause: it reaches the caller, and the file stays.
\<close>

theorem pickle_load_corrupt:
  "isabs dir \<Longrightarrow> files s (get_cache_data_path dir name) = Some b \<Longrightarrow> loads b = Raises x \<Longrightarrow>
   pickle_load dir loads s name fallback =
     (if x = UnpicklingError \<or> x = EOFError
      then (Inr fallback, heal (get_cache_data_path dir name) s)
      else (Inl x, s)) \<and>
   (x = UnpicklingError \<or> x = EOFError \<longrightarrow>
      files (snd (pickle_load dir loads s name fallback)) (get_cache_data_path dir name) = None)"
  by (simp add: pickle_load_abs heal_def)

theorem pickle_load_corrupt_witness:
  "isabs ''/home/u/.local/share/coala'' \<and>
   files (corrupt_state UnpicklingError)
     (get_cache_data_path ''/home/u/.local/share/coala'' ''corrupt_file'')
       = Some (Unreadable UnpicklingError) \<and>
   loads_run_times (Unreadable UnpicklingError) = Raises UnpicklingError \<and>
   pickle_load ''/home/u/.local/share/coala'' loads_run_times (corrupt_state UnpicklingError)
       ''corrupt_file'' [(''fallback'', [])]
     = (Inr [(''fallback'', [])], \<lparr>files = Map.empty, warnings = [corrupted_msg]\<rparr>)"
  using pickle_load_corrupt [of "''/home/u/.local/share/coala''" "corrupt_state UnpicklingError"
      "''corrupt_file''" "Unreadable UnpicklingError" loads_run_times UnpicklingError
      "[(''fallback'', [])]"]
  by (simp add: example_path corrupt_state_def heal_def isabs_def)

text \<open>
  The claim as the specification states it, for every blob that cannot be unpickled, fails
  on a blob whose unpickling raises \<open>ImportError\<close>: the exception is raised to the
  caller and the file is still there.
\<close>

theorem pickle_load_uncaught_counterexample:
  "pickle_load ''/home/u/.local/share/coala'' loads_run_times (corrupt_state ImportError)
       ''corrupt_file'' [(''fallback'', [])]
     = (Inl ImportError, corrupt_state ImportError) \<and>
   files (corrupt_state ImportError) ''/home/u/.local/share/coala/corrupt_file''
     = Some (Unreadable ImportError)"
  by (simp add: pickle_load_def example_path corrupt_state_def)




section \<open>Registering again\<close>

text \<open>
  Claim C10 (registering a tracked file again). When a file that the prior data maps to a
  run time other than \<open>-1\<close> is listed among the new files,
  \<open>add_new_files_since_last_run\<close> stores \<open>-1\<close> for it: the recorded run time is lost.
\<close>

theorem add_new_files_resets_tracked:
  assumes "env_ok e" "run_time_store e s = Inr data"
    and "map_of prior f = Some t" "t \<noteq> - 1" "f \<in> set new"
  shows "\<exists>s' entry.
           add_new_files_since_last_run e s p (Some prior) new = (Inr (), s') \<and>
           get_last_coala_run_time e s' p = (Inr (Some entry), s') \<and>
           map_of entry f = Some (- 1)"
  using add_new_files_run[OF assms(1,2), of p "Some prior" new] assms(5)
  by (auto simp: map_of_mark_new)

theorem add_new_files_resets_tracked_witness:
  "env_ok example_env \<and> run_time_store example_env empty_state = Inr [] \<and>
   map_of [(''test.c'', 1462000000)] ''test.c'' = Some (1462000000::int) \<and>
   (1462000000::int) \<noteq> - 1 \<and> ''test.c'' \<in> set [''test.c'', ''file.py''] \<and>
   (\<exists>s' entry.
      add_new_files_since_last_run example_env empty_state ''coala_test''
         (Some [(''test.c'', 1462000000)]) [''test.c'', ''file.py''] = (Inr (), s') \<and>
      get_last_coala_run_time example_env s' ''coala_test'' = (Inr (Some entry), s') \<and>
      map_of entry ''test.c'' = Some (- 1))"
proof -
  have 1: "map_of [(''test.c'', 1462000000)] ''test.c'' = Some (1462000000::int)" by simp
  have 2: "(1462000000::int) \<noteq> - 1" by simp
  have 3: "''test.c'' \<in> set [''test.c'', ''file.py'']" by simp
  from add_new_files_resets_tracked [OF example_env_ok empty_stores(1) 1 2 3, of "''coala_test''"]
    example_env_ok empty_stores(1) 1 2 3
  show ?thesis by blast
qed

end
